theory Spec2Isabelle
  imports Main "HOL-Library.Sublist"
begin

section \<open>Strings\<close>

text \<open>
  A JavaScript string is modelled as a \<^typ>\<open>string\<close>: the list of its code units, each
  below 256. The string methods the services call are written out on lists.
\<close>

text \<open>\<^verbatim>\<open>s.startsWith(p)\<close>\<close>

definition startsWith :: "string \<Rightarrow> string \<Rightarrow> bool" where
  "startsWith s p = (take (length p) s = p)"

text \<open>\<^verbatim>\<open>s.endsWith(p)\<close>\<close>

definition endsWith :: "string \<Rightarrow> string \<Rightarrow> bool" where
  "endsWith s p = (length p \<le> length s \<and> drop (length s - length p) s = p)"

text \<open>\<^verbatim>\<open>s.substring(n)\<close> and \<^verbatim>\<open>s.slice(n)\<close>, for a constant \<open>n \<ge> 0\<close>.\<close>

definition substring :: "string \<Rightarrow> nat \<Rightarrow> string" where
  "substring s n = drop n s"

text \<open>
  The white space of \<^verbatim>\<open>trim()\<close> and of the regular expression \<^verbatim>\<open>\s\<close>, among
  the code units below 256: space, tab, line feed, vertical tab, form feed, carriage
  return and the no-break space.
\<close>

definition isWhiteSpace :: "char \<Rightarrow> bool" where
  "isWhiteSpace c =
     (c = CHR '' '' \<or> c = CHR 0x09 \<or> c = CHR 0x0A \<or> c = CHR 0x0B \<or> c = CHR 0x0C
      \<or> c = CHR 0x0D \<or> c = CHR 0xA0)"

text \<open>\<^verbatim>\<open>s.trim()\<close>\<close>

definition trim :: "string \<Rightarrow> string" where
  "trim s = rev (dropWhile isWhiteSpace (rev (dropWhile isWhiteSpace s)))"

text \<open>
  \<^verbatim>\<open>s.split(/\s+/)\<close>: the pieces between the maximal runs of white space. The result
  is never empty; a leading or a trailing run leaves an empty first or last piece.
\<close>

function splitWhiteSpace :: "string \<Rightarrow> string list" where
  "splitWhiteSpace [] = [[]]"
| "splitWhiteSpace (c # cs) =
     (if isWhiteSpace c then [] # splitWhiteSpace (dropWhile isWhiteSpace cs)
      else (case splitWhiteSpace cs of
              [] \<Rightarrow> [[c]]
            | t # ts \<Rightarrow> (c # t) # ts))"
  by pat_completeness auto
termination
  by (relation "measure length") (auto simp: less_Suc_eq_le length_dropWhile_le)

text \<open>
  \<^verbatim>\<open>const [name] = s.split('.')\<close>: the first piece of a split at a single character,
  which is the text before the first occurrence of the separator.
\<close>

definition splitFirst :: "char \<Rightarrow> string \<Rightarrow> string" where
  "splitFirst sep s = takeWhile (\<lambda>c. c \<noteq> sep) s"

text \<open>
  Truthiness of a value of type \<^verbatim>\<open>string | undefined\<close>: \<^verbatim>\<open>undefined\<close> and the empty
  string are falsy.
\<close>

definition truthy :: "string option \<Rightarrow> bool" where
  "truthy v = (case v of None \<Rightarrow> False | Some s \<Rightarrow> s \<noteq> [])"

text \<open>
  \<^verbatim>\<open>s.toLowerCase()\<close> on the letters A to Z; the schema applies it to members of its
  enumeration only.
\<close>

definition lowerChar :: "char \<Rightarrow> char" where
  "lowerChar c =
     (case map_of (zip ''ABCDEFGHIJKLMNOPQRSTUVWXYZ'' ''abcdefghijklmnopqrstuvwxyz'') c of
        None \<Rightarrow> c
      | Some l \<Rightarrow> l)"

definition toLowerCase :: "string \<Rightarrow> string" where
  "toLowerCase s = map lowerChar s"

section \<open>Errors, events and the host\<close>

text \<open>
  What a call can throw: an \<^verbatim>\<open>Error\<close> this code constructs, with its message; the
  \<^verbatim>\<open>ZodError\<close> of a failed schema validation; anything a collaborator throws.
\<close>

datatype error = Error string | ZodError | Thrown string

type_synonym path = string

text \<open>A JSON value as \<^verbatim>\<open>JSON.parse\<close> returns it; an object is the list of its members.\<close>

datatype json =
    JNull
  | JBool bool
  | JNumber int
  | JString string
  | JArray "json list"
  | JObject "(string \<times> json) list"

text \<open>The upstream release API's records, with the fields this code reads.\<close>

record release =
  rel_id :: int
  rel_name :: "string option"
  rel_tag_name :: string
  rel_prerelease :: bool

record asset =
  asset_id :: int
  asset_name :: string

text \<open>\<^verbatim>\<open>GithubReleaseMetadata\<close>: a quick-pick item with the release's tag and id.\<close>

record GithubReleaseMetadata =
  label :: string
  tag :: string
  rid :: int

text \<open>
  \<^verbatim>\<open>ProviderContainerConnection\<close>, with the fields read here: the provider id and
  the connection's name, type and (optional) virtual machine type.
\<close>

record ProviderContainerConnection =
  providerId :: string
  conn_name :: string
  conn_type :: string
  conn_vmType :: "string option"

text \<open>\<^verbatim>\<open>PodmanConnection\<close>, as \<^verbatim>\<open>PodmanService.findPodmanConnection\<close> returns it.\<close>

record PodmanConnection =
  pc_Name :: string
  pc_URI :: string
  pc_Identity :: "string option"

text \<open>
  The calls that leave the service, in the order they are made: to the file system, to the
  process executor, to the archive libraries, to the release API and to the host's window.
\<close>

datatype event =
    Mkdir path
  | Rename path path
  | WriteFile path string
  | Rm path
  | Chmod path nat
  | Exec path "string list" "(string \<times> string) list option"
  | ExtractAllTo path path bool
  | TarX path path
  | ListReleases string string
  | ListReleaseAssets string string int
  | GetReleaseAsset string string int
  | ShowQuickPick "GithubReleaseMetadata list" string
  | WithProgress string
  | FindPodmanConnection ProviderContainerConnection
  | ConsoleWarn string
  | LoggerLog string

text \<open>
  The pure part of the environment: the injected storage path and platform flags, the
  platform and architecture of \<^verbatim>\<open>node:process\<close>, the functions of \<^verbatim>\<open>node:path\<close> and
  \<^verbatim>\<open>JSON.parse\<close>. They are parameters: every theorem holds for each choice of them.
\<close>

record env =
  storagePath :: path
  isWindows :: bool
  isLinux :: bool
  nodePlatform :: string
  nodeArch :: string
  pathJoin :: "string list \<Rightarrow> path"
  pathDirname :: "path \<Rightarrow> path"
  pathBasename :: "path \<Rightarrow> string"
  jsonParse :: "string \<Rightarrow> error + json"

text \<open>
  The collaborators that read or change the world \<open>'w\<close> outside the service. A call that
  can change the world returns the new world with its result or the error it throws;
  \<^verbatim>\<open>existsSync\<close> and \<^verbatim>\<open>readFile\<close> only read.
\<close>

record 'w host = env +
  existsSync :: "path \<Rightarrow> 'w \<Rightarrow> bool"
  readFile :: "path \<Rightarrow> 'w \<Rightarrow> error + string"
  mkdir :: "path \<Rightarrow> 'w \<Rightarrow> (error + unit) \<times> 'w"
  rename :: "path \<Rightarrow> path \<Rightarrow> 'w \<Rightarrow> (error + unit) \<times> 'w"
  writeFile :: "path \<Rightarrow> string \<Rightarrow> 'w \<Rightarrow> (error + unit) \<times> 'w"
  rm :: "path \<Rightarrow> 'w \<Rightarrow> (error + unit) \<times> 'w"
  chmod :: "path \<Rightarrow> nat \<Rightarrow> 'w \<Rightarrow> (error + unit) \<times> 'w"
  processExec :: "path \<Rightarrow> string list \<Rightarrow> (string \<times> string) list option \<Rightarrow> 'w
                  \<Rightarrow> (error + string) \<times> 'w"
  extractAllTo :: "path \<Rightarrow> path \<Rightarrow> bool \<Rightarrow> 'w \<Rightarrow> (error + unit) \<times> 'w"
  tarX :: "path \<Rightarrow> path \<Rightarrow> 'w \<Rightarrow> (error + unit) \<times> 'w"
  octokitListReleases :: "string \<Rightarrow> string \<Rightarrow> 'w \<Rightarrow> (error + release list) \<times> 'w"
  octokitListReleaseAssets :: "string \<Rightarrow> string \<Rightarrow> int \<Rightarrow> 'w \<Rightarrow> (error + asset list) \<times> 'w"
  octokitGetReleaseAsset :: "string \<Rightarrow> string \<Rightarrow> int \<Rightarrow> 'w \<Rightarrow> (error + string) \<times> 'w"
  showQuickPick :: "GithubReleaseMetadata list \<Rightarrow> string \<Rightarrow> 'w
                    \<Rightarrow> (error + GithubReleaseMetadata option) \<times> 'w"
  findPodmanConnection :: "ProviderContainerConnection \<Rightarrow> 'w
                           \<Rightarrow> (error + PodmanConnection option) \<times> 'w"

text \<open>The world together with the trace of the calls made so far.\<close>

record 'w sys =
  world :: 'w
  trace :: "event list"

text \<open>One call to a collaborator: it is recorded, and the world becomes what it returns.\<close>

definition call :: "event \<Rightarrow> ('w \<Rightarrow> 'r \<times> 'w) \<Rightarrow> 'w sys \<Rightarrow> 'r \<times> 'w sys" where
  "call ev f s = (case f (world s) of (r, w') \<Rightarrow> (r, \<lparr>world = w', trace = trace s @ [ev]\<rparr>))"

text \<open>A step that only records an event (a log line, the opening of a progress scope).\<close>

definition note_event :: "event \<Rightarrow> 'w sys \<Rightarrow> 'w sys" where
  "note_event ev s = s\<lparr>trace := trace s @ [ev]\<rparr>"

section \<open>The tool lifecycle manager (\<^verbatim>\<open>AnchoreCliService\<close>)\<close>

text \<open>What a concrete tool supplies: the abstract getters of \<^verbatim>\<open>AnchoreCliService\<close>.\<close>

record tool =
  toolId :: string
  displayName :: string
  markdownDescription :: string
  repoName :: string
  icon :: string

definition syft :: tool where
  "syft = \<lparr>toolId = ''syft'', displayName = ''Syft'',
     markdownDescription =
       ''Syft is a powerful open-source tool for generating Software Bills of Materials (SBOMs).'',
     repoName = ''syft'', icon = ''syft.png''\<rparr>"

definition grype :: tool where
  "grype = \<lparr>toolId = ''grype'', displayName = ''Grype'',
     markdownDescription =
       ''Grype is a vulnerability scanner for container images and filesystems.'',
     repoName = ''grype'', icon = ''icon.png''\<rparr>"

text \<open>The host's \<^verbatim>\<open>CliTool\<close>, as \<^verbatim>\<open>createCliTool\<close> registers it.\<close>

record CliTool =
  tool_name :: string
  tool_displayName :: string
  tool_markdownDescription :: string
  tool_icon :: string
  tool_logo :: string
  tool_version :: "string option"
  tool_installationSource :: string
  tool_path :: "string option"

text \<open>
  The state of one service: its \<^verbatim>\<open>cliTool\<close> field, and the two variables of
  \<^verbatim>\<open>init\<close> that the registered installer closes over, \<^verbatim>\<open>version\<close> (here \<open>init_version\<close>)
  and \<^verbatim>\<open>selected\<close>.
\<close>

record service =
  cliTool :: "CliTool option"
  init_version :: "string option"
  selected :: "GithubReleaseMetadata option"

definition ANCHORE_GITHUB_ORG :: string where
  "ANCHORE_GITHUB_ORG = ''anchore''"

definition storageDir :: "'w host \<Rightarrow> tool \<Rightarrow> path" where
  "storageDir h t = pathJoin h [storagePath h, toolId t]"

definition binaryBaseName :: "tool \<Rightarrow> string" where
  "binaryBaseName t = toolId t"

definition binaryPath :: "'w host \<Rightarrow> tool \<Rightarrow> path" where
  "binaryPath h t =
     pathJoin h [storageDir h t,
       if isWindows h then binaryBaseName t @ ''.exe'' else binaryBaseName t]"

text \<open>\<^verbatim>\<open>getInstalledVersion\<close>: the second token of the trimmed output, or all of it.\<close>

definition getInstalledVersion :: "'w host \<Rightarrow> tool \<Rightarrow> 'w sys \<Rightarrow> (error + string) \<times> 'w sys" where
  "getInstalledVersion h t s =
     (case call (Exec (binaryPath h t) [''--version''] None)
             (processExec h (binaryPath h t) [''--version''] None) s of
        (Inl e, s1) \<Rightarrow> (Inl e, s1)
      | (Inr stdout, s1) \<Rightarrow>
          (let text = trim stdout
           in (Inr (case splitWhiteSpace text of
                      _ # version # _ \<Rightarrow> version
                    | _ \<Rightarrow> text), s1)))"

text \<open>
  \<^verbatim>\<open>init\<close>: probe the binary, create the storage folder, register the tool. The
  installer's \<^verbatim>\<open>selected\<close> starts undefined. When \<^verbatim>\<open>mkdir\<close> throws, nothing is
  registered and the service is as before.
\<close>

definition init :: "'w host \<Rightarrow> tool \<Rightarrow> service \<Rightarrow> 'w sys \<Rightarrow> (error + unit) \<times> service \<times> 'w sys" where
  "init h t inst s =
     (case (if existsSync h (binaryPath h t) (world s) then
              (case getInstalledVersion h t s of
                 (Inl err, s') \<Rightarrow>
                   (None, note_event (ConsoleWarn ''Unable to determine installed version'') s')
               | (Inr v, s') \<Rightarrow> (Some v, s'))
            else (None, s)) of
        (version, s1) \<Rightarrow>
          (case call (Mkdir (storageDir h t)) (mkdir h (storageDir h t)) s1 of
             (Inl e, s2) \<Rightarrow> (Inl e, inst, s2)
           | (Inr _, s2) \<Rightarrow>
               (Inr (),
                \<lparr>cliTool = Some \<lparr>tool_name = toolId t, tool_displayName = displayName t,
                    tool_markdownDescription = markdownDescription t,
                    tool_icon = icon t, tool_logo = icon t,
                    tool_version = version, tool_installationSource = ''extension'',
                    tool_path = (if truthy version then Some (binaryPath h t) else None)\<rparr>,
                 init_version = version, selected = None\<rparr>,
                s2)))"

text \<open>The function \<^verbatim>\<open>listReleases\<close> maps over the releases it keeps.\<close>

definition releaseMetadata :: "release \<Rightarrow> GithubReleaseMetadata" where
  "releaseMetadata release =
     \<lparr>label = (case rel_name release of
                 None \<Rightarrow> rel_tag_name release
               | Some n \<Rightarrow> n),
      tag = rel_tag_name release,
      rid = rel_id release\<rparr>"

text \<open>\<^verbatim>\<open>listReleases(limits = 10)\<close>; \<open>limits\<close> is a count.\<close>

definition listReleases :: "'w host \<Rightarrow> tool \<Rightarrow> nat \<Rightarrow> 'w sys
    \<Rightarrow> (error + GithubReleaseMetadata list) \<times> 'w sys" where
  "listReleases h t limits s =
     (case call (ListReleases ANCHORE_GITHUB_ORG (repoName t))
             (octokitListReleases h ANCHORE_GITHUB_ORG (repoName t)) s of
        (Inl e, s1) \<Rightarrow> (Inl e, s1)
      | (Inr data, s1) \<Rightarrow>
          (let data1 = filter (\<lambda>release. \<not> rel_prerelease release) data;
               data2 = (if length data1 > limits then take limits data1 else data1)
           in (Inr (map releaseMetadata data2), s1)))"

definition promptUserForVersion :: "'w host \<Rightarrow> tool \<Rightarrow> string option \<Rightarrow> 'w sys
    \<Rightarrow> (error + GithubReleaseMetadata) \<times> 'w sys" where
  "promptUserForVersion h t currentTagVersion s =
     (case listReleases h t 10 s of
        (Inl e, s1) \<Rightarrow> (Inl e, s1)
      | (Inr lastReleasesMetadata, s1) \<Rightarrow>
          (let items = (if truthy currentTagVersion
                        then filter (\<lambda>release. Some (tag release) \<noteq> currentTagVersion)
                               lastReleasesMetadata
                        else lastReleasesMetadata);
               placeHolder = ''Select '' @ displayName t @ '' version to download''
           in case call (ShowQuickPick items placeHolder) (showQuickPick h items placeHolder) s1 of
                (Inl e, s2) \<Rightarrow> (Inl e, s2)
              | (Inr None, s2) \<Rightarrow> (Inl (Error ''No version selected''), s2)
              | (Inr (Some selectedRelease), s2) \<Rightarrow> (Inr selectedRelease, s2)))"

text \<open>\<^verbatim>\<open>getAssetName\<close>: the two \<^verbatim>\<open>switch\<close> statements, case by case.\<close>

definition getAssetName :: "'w host \<Rightarrow> tool \<Rightarrow> string \<Rightarrow> string" where
  "getAssetName h t v =
     (let platform = nodePlatform h;
          (os, extension) =
            (if platform = ''win32'' then (''windows'', ''zip'')
             else if platform = ''darwin'' then (''darwin'', ''tar.gz'')
             else if platform = ''linux'' then (''linux'', ''tar.gz'')
             else (''linux'', ''tar.gz''));
          arch = nodeArch h;
          architecture =
            (if arch = ''x64'' then ''amd64''
             else if arch = ''arm64'' then ''arm64''
             else if arch = ''ppc64'' then ''ppc64le''
             else if arch = ''s390x'' then ''s390x''
             else arch)
      in binaryBaseName t @ ''_'' @ v @ ''_'' @ os @ ''_'' @ architecture @ ''.'' @ extension)"

definition download :: "'w host \<Rightarrow> tool \<Rightarrow> GithubReleaseMetadata \<Rightarrow> 'w sys \<Rightarrow> (error + path) \<times> 'w sys" where
  "download h t release s =
     (case call (ListReleaseAssets ANCHORE_GITHUB_ORG (repoName t) (rid release))
             (octokitListReleaseAssets h ANCHORE_GITHUB_ORG (repoName t) (rid release)) s of
        (Inl e, s1) \<Rightarrow> (Inl e, s1)
      | (Inr data, s1) \<Rightarrow>
          (let assetName = getAssetName h t (substring (tag release) 1)
           in case find (\<lambda>a. assetName = asset_name a) data of
                None \<Rightarrow> (Inl (Error (''asset '' @ assetName @ '' not found'')), s1)
              | Some asset \<Rightarrow>
                  (case call (GetReleaseAsset ANCHORE_GITHUB_ORG (repoName t) (asset_id asset))
                          (octokitGetReleaseAsset h ANCHORE_GITHUB_ORG (repoName t) (asset_id asset))
                          s1 of
                     (Inl e, s2) \<Rightarrow> (Inl e, s2)
                   | (Inr bytes, s2) \<Rightarrow>
                       (case call (Mkdir (storageDir h t)) (mkdir h (storageDir h t)) s2 of
                          (Inl e, s3) \<Rightarrow> (Inl e, s3)
                        | (Inr _, s3) \<Rightarrow>
                            (let destination = pathJoin h [storageDir h t, asset_name asset]
                             in case call (WriteFile destination bytes)
                                       (writeFile h destination bytes) s3 of
                                  (Inl e, s4) \<Rightarrow> (Inl e, s4)
                                | (Inr _, s4) \<Rightarrow> (Inr destination, s4))))))"

text \<open>\<^verbatim>\<open>extract\<close>; the mode \<^verbatim>\<open>0o755\<close> is 493.\<close>

definition extractArchive :: "'w host \<Rightarrow> tool \<Rightarrow> path \<Rightarrow> path \<Rightarrow> 'w sys \<Rightarrow> (error + path) \<times> 'w sys" where
  "extractArchive h t archivePath destDir s =
     (case (if endsWith archivePath ''.zip''
            then call (ExtractAllTo archivePath destDir True)
                   (extractAllTo h archivePath destDir True) s
            else if endsWith archivePath ''.tar.gz''
            then call (TarX archivePath destDir) (tarX h archivePath destDir) s
            else (Inl (Error (''Unsupported archive format: '' @ archivePath)), s)) of
        (Inl e, s1) \<Rightarrow> (Inl e, s1)
      | (Inr _, s1) \<Rightarrow>
          (let binaryName = (if isWindows h then binaryBaseName t @ ''.exe'' else binaryBaseName t);
               binPath = pathJoin h [destDir, binaryName]
           in if \<not> isWindows h
              then (case call (Chmod binPath 493) (chmod h binPath 493) s1 of
                      (Inl e, s2) \<Rightarrow> (Inl e, s2)
                    | (Inr _, s2) \<Rightarrow> (Inr binPath, s2))
              else (Inr binPath, s1)))"

text \<open>
  The installer's \<^verbatim>\<open>doInstall\<close>. The \<^verbatim>\<open>try\<close> block is the inner case; the
  \<^verbatim>\<open>finally\<close> block removes the archive and drops what \<^verbatim>\<open>rm\<close> throws.
\<close>

definition doInstall :: "'w host \<Rightarrow> tool \<Rightarrow> service \<Rightarrow> 'w sys \<Rightarrow> (error + unit) \<times> service \<times> 'w sys" where
  "doInstall h t inst s =
     (case selected inst of
        None \<Rightarrow> (Inl (Error ''No version selected''), inst, s)
      | Some sel \<Rightarrow>
          (case download h t sel s of
             (Inl e, s1) \<Rightarrow> (Inl e, inst, s1)
           | (Inr assetPath, s1) \<Rightarrow>
               (let s2 = note_event (LoggerLog (''Downloaded '' @ toolId t @ '' to '' @ assetPath)) s1
                in case (case extractArchive h t assetPath (storageDir h t) s2 of
                           (Inl e, s3) \<Rightarrow> (Inl e, inst, s3)
                         | (Inr binPath, s3) \<Rightarrow>
                             (Inr (),
                              inst\<lparr>cliTool :=
                                map_option (\<lambda>c. c\<lparr>tool_version := Some (substring (tag sel) 1),
                                                  tool_path := Some binPath,
                                                  tool_installationSource := ''extension''\<rparr>)
                                  (cliTool inst)\<rparr>,
                              note_event
                                (LoggerLog (''Extracted '' @ toolId t @ '' to '' @ binPath)) s3)) of
                     (r, inst', s4) \<Rightarrow>
                       (case call (Rm assetPath) (rm h assetPath) s4 of
                          (_, s5) \<Rightarrow> (r, inst', s5)))))"

definition selectVersion :: "'w host \<Rightarrow> tool \<Rightarrow> service \<Rightarrow> 'w sys \<Rightarrow> (error + string) \<times> service \<times> 'w sys" where
  "selectVersion h t inst s =
     (let current = init_version inst
      in case promptUserForVersion h t
                (case current of
                   None \<Rightarrow> None
                 | Some c \<Rightarrow> if c \<noteq> [] then Some (''v'' @ c) else None) s of
           (Inl e, s1) \<Rightarrow> (Inl e, inst, s1)
         | (Inr sel, s1) \<Rightarrow> (Inr (substring (tag sel) 1), inst\<lparr>selected := Some sel\<rparr>, s1))"

definition doUninstall :: "service \<Rightarrow> 'w sys \<Rightarrow> (error + unit) \<times> service \<times> 'w sys" where
  "doUninstall inst s = (Inl (Error ''Not implemented''), inst, s)"

section \<open>The result schema (\<^verbatim>\<open>GrypeOutputSchema\<close>)\<close>

text \<open>The output type of the schema: \<^verbatim>\<open>GrypeOutput\<close>.\<close>

record vulnerability_out =
  vuln_id :: string
  severity :: string
  description :: "string option"

record match_out =
  vulnerability :: vulnerability_out

record GrypeOutput =
  matches :: "match_out list"

text \<open>
  The inner object: \<^verbatim>\<open>id\<close> a string, \<^verbatim>\<open>severity\<close> a member of the enumeration, put
  to lower case, \<^verbatim>\<open>description\<close> a string or absent. A member the schema does not name
  is dropped.
\<close>

definition parseVulnerability :: "json \<Rightarrow> error + vulnerability_out" where
  "parseVulnerability j =
     (case j of
        JObject kvs \<Rightarrow>
          (case map_of kvs ''id'' of
             Some (JString i) \<Rightarrow>
               (case map_of kvs ''severity'' of
                  Some (JString sev) \<Rightarrow>
                    if sev = ''High'' \<or> sev = ''Medium'' \<or> sev = ''Critical'' \<or> sev = ''Low''
                    then (case map_of kvs ''description'' of
                            None \<Rightarrow>
                              Inr \<lparr>vuln_id = i, severity = toLowerCase sev, description = None\<rparr>
                          | Some (JString d) \<Rightarrow>
                              Inr \<lparr>vuln_id = i, severity = toLowerCase sev, description = Some d\<rparr>
                          | Some _ \<Rightarrow> Inl ZodError)
                    else Inl ZodError
                | _ \<Rightarrow> Inl ZodError)
           | _ \<Rightarrow> Inl ZodError)
      | _ \<Rightarrow> Inl ZodError)"

definition parseMatch :: "json \<Rightarrow> error + match_out" where
  "parseMatch j =
     (case j of
        JObject kvs \<Rightarrow>
          (case map_of kvs ''vulnerability'' of
             None \<Rightarrow> Inl ZodError
           | Some v \<Rightarrow>
               (case parseVulnerability v of
                  Inl e \<Rightarrow> Inl e
                | Inr vo \<Rightarrow> Inr \<lparr>vulnerability = vo\<rparr>))
      | _ \<Rightarrow> Inl ZodError)"

text \<open>The array: every element has to parse.\<close>

fun parseMatches :: "json list \<Rightarrow> error + match_out list" where
  "parseMatches [] = Inr []"
| "parseMatches (j # js) =
     (case parseMatch j of
        Inl e \<Rightarrow> Inl e
      | Inr m \<Rightarrow>
          (case parseMatches js of
             Inl e \<Rightarrow> Inl e
           | Inr ms \<Rightarrow> Inr (m # ms)))"

definition GrypeOutputSchema_parse :: "json \<Rightarrow> error + GrypeOutput" where
  "GrypeOutputSchema_parse j =
     (case j of
        JObject kvs \<Rightarrow>
          (case map_of kvs ''matches'' of
             Some (JArray ms) \<Rightarrow>
               (case parseMatches ms of
                  Inl e \<Rightarrow> Inl e
                | Inr xs \<Rightarrow> Inr \<lparr>matches = xs\<rparr>)
           | _ \<Rightarrow> Inl ZodError)
      | _ \<Rightarrow> Inl ZodError)"

section \<open>The scan invokers\<close>

text \<open>
  The guard both invokers open with,
  \<^verbatim>\<open>!this.cliTool?.version || !this.cliTool.path\<close>: the binary's path when the tool has a
  version and a path, nothing otherwise.
\<close>

definition cliBinary :: "service \<Rightarrow> path option" where
  "cliBinary inst =
     (case cliTool inst of
        None \<Rightarrow> None
      | Some c \<Rightarrow> if truthy (tool_version c) \<and> truthy (tool_path c) then tool_path c else None)"

subsection \<open>\<^verbatim>\<open>SyftService\<close>\<close>

definition sanitizeImageId :: "string \<Rightarrow> string" where
  "sanitizeImageId imageId =
     (if startsWith imageId ''sha256:'' then substring imageId 7 else imageId)"

text \<open>The destination \<^verbatim>\<open>SyftService.analyse\<close> computes.\<close>

definition sbomDestination :: "'w host \<Rightarrow> ProviderContainerConnection \<Rightarrow> string \<Rightarrow> path" where
  "sbomDestination h connection imageId =
     pathJoin h [storagePath h, providerId connection, conn_name connection,
                 sanitizeImageId imageId @ ''.jsonpow'']"

text \<open>The environment of the binary: empty for a local engine, the SSH target otherwise.\<close>

definition connectionEnv :: "PodmanConnection option \<Rightarrow> error + (string \<times> string) list" where
  "connectionEnv connection =
     (case connection of
        None \<Rightarrow> Inr []
      | Some c \<Rightarrow>
          if \<not> startsWith (pc_URI c) ''ssh:''
          then Inl (Error ''do not support non-SSH connections'')
          else Inr ((''CONTAINER_HOST'', pc_URI c) #
                    (case pc_Identity c of
                       None \<Rightarrow> []
                     | Some i \<Rightarrow> if i \<noteq> [] then [(''CONTAINER_SSHKEY'', i)] else [])))"

definition syft_analyse :: "'w host \<Rightarrow> service \<Rightarrow> ProviderContainerConnection \<Rightarrow> string \<Rightarrow> 'w sys
    \<Rightarrow> (error + path) \<times> 'w sys" where
  "syft_analyse h inst connection imageId s =
     (case cliBinary inst of
        None \<Rightarrow> (Inl (Error ''cannot analyse image without syft binary installed''), s)
      | Some binary \<Rightarrow>
          if conn_type connection \<noteq> ''podman''
          then (Inl (Error ''extension only supported podman connection''), s)
          else
            (let destination = sbomDestination h connection imageId
             in if existsSync h destination (world s) then (Inr destination, s)
                else
                  (let s0 = note_event (WithProgress (''Scanning '' @ sanitizeImageId imageId)) s
                   in case call (FindPodmanConnection connection)
                             (findPodmanConnection h connection) s0 of
                        (Inl e, s1) \<Rightarrow> (Inl e, s1)
                      | (Inr pc, s1) \<Rightarrow>
                          if pc = None \<and> \<not> isLinux h
                          then (Inl (Error ''podman connection not found''), s1)
                          else
                            (case connectionEnv pc of
                               Inl e \<Rightarrow> (Inl e, s1)
                             | Inr env \<Rightarrow>
                                 (case call (Mkdir (pathDirname h destination))
                                         (mkdir h (pathDirname h destination)) s1 of
                                    (Inl e, s2) \<Rightarrow> (Inl e, s2)
                                  | (Inr _, s2) \<Rightarrow>
                                      (let tmp = destination @ ''.tmp'';
                                           args = [''--from=podman'', imageId,
                                                   ''--output=json='' @ tmp]
                                       in case call (Exec binary args (Some env))
                                                 (processExec h binary args (Some env)) s2 of
                                            (Inl e, s3) \<Rightarrow> (Inl e, s3)
                                          | (Inr _, s3) \<Rightarrow>
                                              (case call (Rename tmp destination)
                                                      (rename h tmp destination) s3 of
                                                 (Inl e, s4) \<Rightarrow> (Inl e, s4)
                                               | (Inr _, s4) \<Rightarrow> (Inr destination, s4))))))))"

subsection \<open>\<^verbatim>\<open>GrypeService\<close>\<close>

text \<open>The destination \<^verbatim>\<open>GrypeService.analyse\<close> computes from the path of the SBOM.\<close>

definition grypeDestination :: "'w host \<Rightarrow> path \<Rightarrow> path" where
  "grypeDestination h sbom =
     (let dir = pathDirname h sbom;
          name = splitFirst (CHR ''.'') (pathBasename h sbom)
      in pathJoin h [dir, name @ ''.json''])"

text \<open>\<^verbatim>\<open>GrypeOutputSchema.parse(JSON.parse(await readFile(destination, 'utf-8')))\<close>\<close>

definition readResult :: "'w host \<Rightarrow> path \<Rightarrow> 'w sys \<Rightarrow> error + GrypeOutput" where
  "readResult h destination s =
     (case readFile h destination (world s) of
        Inl e \<Rightarrow> Inl e
      | Inr data \<Rightarrow>
          (case jsonParse h data of
             Inl e \<Rightarrow> Inl e
           | Inr j \<Rightarrow> GrypeOutputSchema_parse j))"

definition grype_analyse :: "'w host \<Rightarrow> service \<Rightarrow> path \<Rightarrow> 'w sys \<Rightarrow> (error + GrypeOutput) \<times> 'w sys" where
  "grype_analyse h inst sbom s =
     (case cliBinary inst of
        None \<Rightarrow> (Inl (Error ''cannot analyse image without syft binary installed''), s)
      | Some binary \<Rightarrow>
          if \<not> existsSync h sbom (world s)
          then (Inl (Error ''cannot analyse image without sbom file''), s)
          else
            (let destination = grypeDestination h sbom
             in if existsSync h destination (world s) then (readResult h destination s, s)
                else
                  (let args = [''sbom:'' @ sbom, ''--output=json'', ''--file='' @ destination]
                   in case call (Exec binary args None) (processExec h binary args None) s of
                        (Inl e, s1) \<Rightarrow> (Inl e, s1)
                      | (Inr _, s1) \<Rightarrow> (readResult h destination s1, s1))))"

section \<open>A concrete host\<close>

text \<open>
  One host to evaluate the services on. Its world is the list of the files with their
  contents. Paths are joined with a slash. The binary prints \<^verbatim>\<open>syft 1.41.2\<close> for
  \<^verbatim>\<open>--version\<close>, and otherwise writes a document to the file its output flag names.
\<close>

type_synonym files = "(path \<times> string) list"

definition posixJoin :: "string list \<Rightarrow> path" where
  "posixJoin segments =
     (case filter (\<lambda>x. x \<noteq> []) segments of
        [] \<Rightarrow> ''.''
      | x # xs \<Rightarrow> foldl (\<lambda>a b. a @ ''/'' @ b) x xs)"

definition posixBasename :: "path \<Rightarrow> string" where
  "posixBasename p = rev (takeWhile (\<lambda>c. c \<noteq> CHR ''/'') (rev p))"

definition posixDirname :: "path \<Rightarrow> path" where
  "posixDirname p =
     (let d = rev (drop 1 (dropWhile (\<lambda>c. c \<noteq> CHR ''/'') (rev p)))
      in if d = [] then (if CHR ''/'' \<in> set p then ''/'' else ''.'') else d)"

definition storeFile :: "path \<Rightarrow> string \<Rightarrow> files \<Rightarrow> files" where
  "storeFile p c w = (p, c) # filter (\<lambda>kv. fst kv \<noteq> p) w"

definition emptyResult :: string where
  "emptyResult = ''{\"matches\":[]}''"

definition outputFile :: "string list \<Rightarrow> path option" where
  "outputFile args =
     (case find (\<lambda>a. startsWith a ''--output=json='') args of
        Some a \<Rightarrow> Some (drop 14 a)
      | None \<Rightarrow>
          (case find (\<lambda>a. startsWith a ''--file='') args of
             Some a \<Rightarrow> Some (drop 7 a)
           | None \<Rightarrow> None))"

definition someReleases :: "release list" where
  "someReleases =
     [\<lparr>rel_id = 3, rel_name = Some ''v1.42.0-rc1'', rel_tag_name = ''v1.42.0-rc1'',
       rel_prerelease = True\<rparr>,
      \<lparr>rel_id = 2, rel_name = None, rel_tag_name = ''v1.41.2'', rel_prerelease = False\<rparr>,
      \<lparr>rel_id = 1, rel_name = Some ''v1.41.1'', rel_tag_name = ''v1.41.1'',
       rel_prerelease = False\<rparr>]"

definition someAssets :: "asset list" where
  "someAssets =
     [\<lparr>asset_id = 10, asset_name = ''syft_1.41.2_windows_amd64.zip''\<rparr>,
      \<lparr>asset_id = 11, asset_name = ''syft_1.41.2_linux_amd64.tar.gz''\<rparr>]"

definition linuxHost :: "files host" where
  "linuxHost =
     \<lparr>storagePath = ''/storage'', isWindows = False, isLinux = True,
      nodePlatform = ''linux'', nodeArch = ''x64'',
      pathJoin = posixJoin, pathDirname = posixDirname, pathBasename = posixBasename,
      jsonParse = (\<lambda>text. if text = emptyResult then Inr (JObject [(''matches'', JArray [])])
                           else Inl (Thrown ''SyntaxError'')),
      existsSync = (\<lambda>p w. map_of w p \<noteq> None),
      readFile = (\<lambda>p w. case map_of w p of None \<Rightarrow> Inl (Thrown ''ENOENT'') | Some c \<Rightarrow> Inr c),
      mkdir = (\<lambda>p w. (Inr (), w)),
      rename = (\<lambda>a b w. case map_of w a of
                           None \<Rightarrow> (Inl (Thrown ''ENOENT''), w)
                         | Some c \<Rightarrow> (Inr (), storeFile b c (filter (\<lambda>kv. fst kv \<noteq> a) w))),
      writeFile = (\<lambda>p c w. (Inr (), storeFile p c w)),
      rm = (\<lambda>p w. case map_of w p of
                     None \<Rightarrow> (Inl (Thrown ''ENOENT''), w)
                   | Some c \<Rightarrow> (Inr (), filter (\<lambda>kv. fst kv \<noteq> p) w)),
      chmod = (\<lambda>p m w. (Inr (), w)),
      processExec = (\<lambda>binary args env w.
                       if args = [''--version''] then (Inr ''syft 1.41.2'', w)
                       else (case outputFile args of
                               None \<Rightarrow> (Inr [], w)
                             | Some p \<Rightarrow> (Inr [], storeFile p emptyResult w))),
      extractAllTo = (\<lambda>a d overwrite w. (Inr (), w)),
      tarX = (\<lambda>a d w. (Inr (), w)),
      octokitListReleases = (\<lambda>owner repo w. (Inr someReleases, w)),
      octokitListReleaseAssets = (\<lambda>owner repo r w. (Inr someAssets, w)),
      octokitGetReleaseAsset = (\<lambda>owner repo a w. (Inr ''archive'', w)),
      showQuickPick = (\<lambda>items placeHolder w. (Inr (case items of [] \<Rightarrow> None | x # _ \<Rightarrow> Some x), w)),
      findPodmanConnection = (\<lambda>c w. (Inr None, w))\<rparr>"

text \<open>A service whose tool is installed, one that was never initialised, a local engine.\<close>

definition installedSyft :: service where
  "installedSyft =
     \<lparr>cliTool = Some \<lparr>tool_name = ''syft'', tool_displayName = ''Syft'',
         tool_markdownDescription = markdownDescription syft,
         tool_icon = ''syft.png'', tool_logo = ''syft.png'',
         tool_version = Some ''1.41.2'', tool_installationSource = ''extension'',
         tool_path = Some ''/storage/syft/syft''\<rparr>,
      init_version = Some ''1.41.2'', selected = None\<rparr>"

definition installedGrype :: service where
  "installedGrype =
     \<lparr>cliTool = Some \<lparr>tool_name = ''grype'', tool_displayName = ''Grype'',
         tool_markdownDescription = markdownDescription grype,
         tool_icon = ''icon.png'', tool_logo = ''icon.png'',
         tool_version = Some ''0.109.0'', tool_installationSource = ''extension'',
         tool_path = Some ''/storage/grype/grype''\<rparr>,
      init_version = Some ''0.109.0'', selected = None\<rparr>"

definition freshService :: service where
  "freshService = \<lparr>cliTool = None, init_version = None, selected = None\<rparr>"

definition podmanEngine :: ProviderContainerConnection where
  "podmanEngine =
     \<lparr>providerId = ''podman'', conn_name = ''podman-machine-default'', conn_type = ''podman'',
      conn_vmType = None\<rparr>"

definition dockerEngine :: ProviderContainerConnection where
  "dockerEngine =
     \<lparr>providerId = ''docker'', conn_name = ''docker-context'', conn_type = ''docker'',
      conn_vmType = None\<rparr>"

definition start :: "files \<Rightarrow> files sys" where
  "start w = \<lparr>world = w, trace = []\<rparr>"

text \<open>
  The service \<^verbatim>\<open>init\<close> leaves when no binary is found, and the same service after
  \<^verbatim>\<open>selectVersion\<close> has stored a release.
\<close>

definition registeredSyft :: service where
  "registeredSyft =
     \<lparr>cliTool = Some \<lparr>tool_name = ''syft'', tool_displayName = ''Syft'',
         tool_markdownDescription = markdownDescription syft,
         tool_icon = ''syft.png'', tool_logo = ''syft.png'',
         tool_version = None, tool_installationSource = ''extension'',
         tool_path = None\<rparr>,
      init_version = None, selected = None\<rparr>"

definition selectedSyft :: service where
  "selectedSyft = registeredSyft\<lparr>selected := Some \<lparr>label = ''v1.41.2'', tag = ''v1.41.2'', rid = 2\<rparr>\<rparr>"

text \<open>A host whose archive is corrupt and whose files cannot be removed.\<close>

definition brokenArchiveHost :: "files host" where
  "brokenArchiveHost =
     linuxHost\<lparr>tarX := (\<lambda>a d w. (Inl (Thrown ''TAR_BAD_ARCHIVE''), w)),
               rm := (\<lambda>p w. (Inl (Thrown ''EPERM''), w))\<rparr>"

text \<open>A host whose archive is corrupt, with a working file system.\<close>

definition corruptArchiveHost :: "files host" where
  "corruptArchiveHost = linuxHost\<lparr>tarX := (\<lambda>a d w. (Inl (Thrown ''TAR_BAD_ARCHIVE''), w))\<rparr>"

text \<open>A host whose binary prints one word, and a host whose binary cannot be run.\<close>

definition oneWordHost :: "files host" where
  "oneWordHost = linuxHost\<lparr>processExec := (\<lambda>binary args env w. (Inr ''syft'', w))\<rparr>"

definition noExecHost :: "files host" where
  "noExecHost = linuxHost\<lparr>processExec := (\<lambda>binary args env w. (Inl (Thrown ''EACCES''), w))\<rparr>"

section \<open>Words of the specification\<close>




section \<open>The asset namer as the specification states it\<close>

text \<open>
  The specification's tables: \<open>win32\<close> is \<open>windows\<close> with a zip archive, \<open>darwin\<close> is
  \<open>darwin\<close> and everything else \<open>linux\<close>, both with a gzipped tar archive; four
  architectures are renamed and any other passes through.
\<close>

definition assetOs :: "string \<Rightarrow> string" where
  "assetOs platform =
     (if platform = ''win32'' then ''windows''
      else if platform = ''darwin'' then ''darwin''
      else ''linux'')"

definition assetExtension :: "string \<Rightarrow> string" where
  "assetExtension platform = (if platform = ''win32'' then ''zip'' else ''tar.gz'')"

definition assetArch :: "string \<Rightarrow> string" where
  "assetArch arch =
     (case map_of [(''x64'', ''amd64''), (''arm64'', ''arm64''), (''ppc64'', ''ppc64le''),
                   (''s390x'', ''s390x'')] arch of
        Some a \<Rightarrow> a
      | None \<Rightarrow> arch)"

definition assetNameSpec :: "string \<Rightarrow> string \<Rightarrow> string \<Rightarrow> string \<Rightarrow> string" where
  "assetNameSpec tool v platform arch =
     tool @ ''_'' @ v @ ''_'' @ assetOs platform @ ''_'' @ assetArch arch @ ''.''
       @ assetExtension platform"

section \<open>Properties\<close>

subsection \<open>The asset namer\<close>

text \<open>
  C9. The asset namer is a function of the tool, the version, the platform and the
  architecture alone, it has no error result, and its value is
  \<open>{tool}_{version}_{os}_{arch}.{ext}\<close> with the operating system, the architecture and
  the extension of the specification's tables.
\<close>

theorem getAssetName_spec:
  "getAssetName h t v = assetNameSpec (toolId t) v (nodePlatform h) (nodeArch h)"
  by (simp add: getAssetName_def assetNameSpec_def assetOs_def assetExtension_def
      assetArch_def binaryBaseName_def Let_def)

theorem getAssetName_spec_witness:
  "getAssetName linuxHost grype ''0.109.0'' = ''grype_0.109.0_linux_amd64.tar.gz''"
  using getAssetName_spec [of linuxHost grype "''0.109.0''"]
  by (simp add: assetNameSpec_def assetOs_def assetExtension_def assetArch_def
      linuxHost_def grype_def)

subsection \<open>The release list\<close>

lemma listReleases_result:
  assumes "octokitListReleases h ANCHORE_GITHUB_ORG (repoName t) (world s) = (Inr data, w)"
  shows "fst (listReleases h t limits s)
         = Inr (map releaseMetadata (take limits (filter (\<lambda>r. \<not> rel_prerelease r) data)))"
  using assms by (simp add: listReleases_def call_def Let_def)

lemma take_filter_subseq: "subseq (take n (filter P xs)) xs"
proof -
  have "subseq (take n (filter P xs)) (filter P xs)"
    by (simp add: prefix_imp_subseq take_is_prefix)
  moreover have "subseq (filter P xs) xs" by simp
  ultimately show ?thesis by (rule subseq_order.trans)
qed

lemma take_filter_holds: "r \<in> set (take n (filter P xs)) \<Longrightarrow> P r"
  using set_take_subset [of n "filter P xs"] by auto

text \<open>
  C4. When the upstream call answers with a list of releases, \<^verbatim>\<open>listReleases\<close> returns the
  metadata of releases \<open>rs\<close> none of which is a pre-release, at most \<open>limits\<close> of them, and
  \<open>rs\<close> is a subsequence of the upstream list: the order is the upstream's. It is the first
  \<open>limits\<close> releases that are not pre-releases.
\<close>

theorem listReleases_filtered:
  assumes "octokitListReleases h ANCHORE_GITHUB_ORG (repoName t) (world s) = (Inr data, w)"
  shows "\<exists>rs. fst (listReleases h t limits s) = Inr (map releaseMetadata rs)
           \<and> rs = take limits (filter (\<lambda>r. \<not> rel_prerelease r) data)
           \<and> (\<forall>r \<in> set rs. \<not> rel_prerelease r)
           \<and> length (map releaseMetadata rs) \<le> limits
           \<and> subseq rs data"
proof (intro exI conjI)
  show "fst (listReleases h t limits s)
        = Inr (map releaseMetadata (take limits (filter (\<lambda>r. \<not> rel_prerelease r) data)))"
    by (rule listReleases_result [OF assms])
  show "take limits (filter (\<lambda>r. \<not> rel_prerelease r) data)
        = take limits (filter (\<lambda>r. \<not> rel_prerelease r) data)" by (rule refl)
  show "\<forall>r \<in> set (take limits (filter (\<lambda>r. \<not> rel_prerelease r) data)). \<not> rel_prerelease r"
    using take_filter_holds [of _ limits "\<lambda>r. \<not> rel_prerelease r" data] by blast
  show "length (map releaseMetadata (take limits (filter (\<lambda>r. \<not> rel_prerelease r) data))) \<le> limits"
    by simp
  show "subseq (take limits (filter (\<lambda>r. \<not> rel_prerelease r) data)) data"
    by (rule take_filter_subseq)
qed

theorem listReleases_filtered_witness:
  "octokitListReleases linuxHost ANCHORE_GITHUB_ORG (repoName syft) (world (start []))
     = (Inr someReleases, [])
   \<and> fst (listReleases linuxHost syft 1 (start []))
     = Inr [\<lparr>label = ''v1.41.2'', tag = ''v1.41.2'', rid = 2\<rparr>]"
proof -
  have h: "octokitListReleases linuxHost ANCHORE_GITHUB_ORG (repoName syft) (world (start []))
        = (Inr someReleases, [])"
    by (simp add: linuxHost_def start_def)
  from listReleases_filtered [OF h, of 1]
  obtain rs where a: "fst (listReleases linuxHost syft 1 (start [])) = Inr (map releaseMetadata rs)"
    and b: "rs = take 1 (filter (\<lambda>r. \<not> rel_prerelease r) someReleases)"
    by blast
  have "rs = [\<lparr>rel_id = 2, rel_name = None, rel_tag_name = ''v1.41.2'', rel_prerelease = False\<rparr>]"
    unfolding b by (simp add: someReleases_def)
  then have "map releaseMetadata rs = [\<lparr>label = ''v1.41.2'', tag = ''v1.41.2'', rid = 2\<rparr>]"
    by (simp add: releaseMetadata_def)
  with a h show ?thesis by simp
qed

subsection \<open>The installer\<close>

lemma init_selected:
  "init h t inst0 s0 = (Inr (), inst, s1) \<Longrightarrow> selected inst = None"
  by (auto simp: init_def split: prod.splits sum.splits if_splits)

text \<open>
  C5. \<^verbatim>\<open>doInstall\<close> with no selected version fails with \<open>No version selected\<close> and
  leaves the service, the world and the trace as they were: no call was made, to the
  network or elsewhere. That is the state \<^verbatim>\<open>init\<close> leaves, so it holds for every
  \<^verbatim>\<open>doInstall\<close> that no successful \<^verbatim>\<open>selectVersion\<close> precedes.
\<close>

theorem doInstall_requires_selection:
  "(selected inst = None \<longrightarrow>
      doInstall h t inst s = (Inl (Error ''No version selected''), inst, s))
   \<and> (init h t inst0 s0 = (Inr (), inst, s1) \<longrightarrow>
      doInstall h t inst s = (Inl (Error ''No version selected''), inst, s))"
proof (intro conjI impI)
  assume "selected inst = None"
  then show "doInstall h t inst s = (Inl (Error ''No version selected''), inst, s)"
    by (simp add: doInstall_def)
next
  assume "init h t inst0 s0 = (Inr (), inst, s1)"
  then have "selected inst = None" by (rule init_selected)
  then show "doInstall h t inst s = (Inl (Error ''No version selected''), inst, s)"
    by (simp add: doInstall_def)
qed

lemma init_no_binary:
  "init linuxHost syft freshService (start [])
   = (Inr (), registeredSyft, \<lparr>world = [], trace = [Mkdir ''/storage/syft'']\<rparr>)"
  by (simp add: init_def linuxHost_def start_def binaryPath_def storageDir_def posixJoin_def
      binaryBaseName_def syft_def call_def registeredSyft_def truthy_def)

theorem doInstall_requires_selection_witness:
  "init linuxHost syft freshService (start [])
     = (Inr (), registeredSyft, \<lparr>world = [], trace = [Mkdir ''/storage/syft'']\<rparr>)
   \<and> doInstall linuxHost syft registeredSyft \<lparr>world = [], trace = [Mkdir ''/storage/syft'']\<rparr>
     = (Inl (Error ''No version selected''), registeredSyft,
        \<lparr>world = [], trace = [Mkdir ''/storage/syft'']\<rparr>)"
  using doInstall_requires_selection [of registeredSyft linuxHost syft
      "\<lparr>world = [], trace = [Mkdir ''/storage/syft'']\<rparr>" freshService "start []"
      "\<lparr>world = [], trace = [Mkdir ''/storage/syft'']\<rparr>"] init_no_binary
  by simp

text \<open>
  C8. Once \<^verbatim>\<open>doInstall\<close> has downloaded the archive, it calls the host's \<^verbatim>\<open>rm\<close> on the
  archive after the extraction, whether the extraction succeeded or threw: the world it
  leaves is the one \<^verbatim>\<open>rm\<close> returns from the world the extraction left, and the removal is
  the last call of the trace, right after the extraction's calls (and the log line of a
  successful one). The result of \<^verbatim>\<open>doInstall\<close> is the extraction's (its error, or
  success), whatever the removal returns.
\<close>

theorem doInstall_removes_archive:
  assumes "selected inst = Some sel" and "download h t sel s = (Inr assetPath, s1)"
  shows "\<exists>r inst' s'. doInstall h t inst s = (r, inst', s')
      \<and> last (trace s') = Rm assetPath
      \<and> (case fst (extractArchive h t assetPath (storageDir h t)
                     (note_event (LoggerLog (''Downloaded '' @ toolId t @ '' to '' @ assetPath)) s1)) of
           Inl e \<Rightarrow> r = Inl e
         | Inr binPath \<Rightarrow> r = Inr ())
      \<and> world s'
        = snd (rm h assetPath
                 (world (snd (extractArchive h t assetPath (storageDir h t)
                     (note_event (LoggerLog (''Downloaded '' @ toolId t @ '' to '' @ assetPath))
                        s1)))))
      \<and> trace s'
        = (case extractArchive h t assetPath (storageDir h t)
                  (note_event (LoggerLog (''Downloaded '' @ toolId t @ '' to '' @ assetPath)) s1) of
             (Inl e, s3) \<Rightarrow> trace s3
           | (Inr binPath, s3) \<Rightarrow>
               trace s3 @ [LoggerLog (''Extracted '' @ toolId t @ '' to '' @ binPath)])
          @ [Rm assetPath]"
  using assms
  by (auto simp: doInstall_def call_def note_event_def Let_def split: prod.splits sum.splits)

lemma download_archive:
  "download linuxHost syft \<lparr>label = ''v1.41.2'', tag = ''v1.41.2'', rid = 2\<rparr> (start [])
   = (Inr ''/storage/syft/syft_1.41.2_linux_amd64.tar.gz'',
      \<lparr>world = [(''/storage/syft/syft_1.41.2_linux_amd64.tar.gz'', ''archive'')],
       trace = [ListReleaseAssets ''anchore'' ''syft'' 2, GetReleaseAsset ''anchore'' ''syft'' 11,
                Mkdir ''/storage/syft'',
                WriteFile ''/storage/syft/syft_1.41.2_linux_amd64.tar.gz'' ''archive'']\<rparr>)"
  "download corruptArchiveHost syft \<lparr>label = ''v1.41.2'', tag = ''v1.41.2'', rid = 2\<rparr> (start [])
   = (Inr ''/storage/syft/syft_1.41.2_linux_amd64.tar.gz'',
      \<lparr>world = [(''/storage/syft/syft_1.41.2_linux_amd64.tar.gz'', ''archive'')],
       trace = [ListReleaseAssets ''anchore'' ''syft'' 2, GetReleaseAsset ''anchore'' ''syft'' 11,
                Mkdir ''/storage/syft'',
                WriteFile ''/storage/syft/syft_1.41.2_linux_amd64.tar.gz'' ''archive'']\<rparr>)"
  "download brokenArchiveHost syft \<lparr>label = ''v1.41.2'', tag = ''v1.41.2'', rid = 2\<rparr> (start [])
   = (Inr ''/storage/syft/syft_1.41.2_linux_amd64.tar.gz'',
      \<lparr>world = [(''/storage/syft/syft_1.41.2_linux_amd64.tar.gz'', ''archive'')],
       trace = [ListReleaseAssets ''anchore'' ''syft'' 2, GetReleaseAsset ''anchore'' ''syft'' 11,
                Mkdir ''/storage/syft'',
                WriteFile ''/storage/syft/syft_1.41.2_linux_amd64.tar.gz'' ''archive'']\<rparr>)"
  by (simp_all add: download_def corruptArchiveHost_def brokenArchiveHost_def linuxHost_def
      start_def call_def ANCHORE_GITHUB_ORG_def syft_def someAssets_def getAssetName_def
      binaryBaseName_def substring_def storageDir_def posixJoin_def storeFile_def Let_def)

text \<open>
  The extraction of the archive, started from the state the download leaves, on the three
  hosts: it succeeds on the first and throws on the two whose archive is corrupt. No host
  touches a file.
\<close>

lemma extract_archive:
  "extractArchive linuxHost syft ''/storage/syft/syft_1.41.2_linux_amd64.tar.gz''
      (storageDir linuxHost syft) \<lparr>world = w, trace = tr\<rparr>
   = (Inr ''/storage/syft/syft'',
      \<lparr>world = w,
       trace = tr @ [TarX ''/storage/syft/syft_1.41.2_linux_amd64.tar.gz'' ''/storage/syft'',
                     Chmod ''/storage/syft/syft'' 493]\<rparr>)"
  "extractArchive corruptArchiveHost syft ''/storage/syft/syft_1.41.2_linux_amd64.tar.gz''
      (storageDir corruptArchiveHost syft) \<lparr>world = w, trace = tr\<rparr>
   = (Inl (Thrown ''TAR_BAD_ARCHIVE''),
      \<lparr>world = w,
       trace = tr @ [TarX ''/storage/syft/syft_1.41.2_linux_amd64.tar.gz'' ''/storage/syft'']\<rparr>)"
  "extractArchive brokenArchiveHost syft ''/storage/syft/syft_1.41.2_linux_amd64.tar.gz''
      (storageDir brokenArchiveHost syft) \<lparr>world = w, trace = tr\<rparr>
   = (Inl (Thrown ''TAR_BAD_ARCHIVE''),
      \<lparr>world = w,
       trace = tr @ [TarX ''/storage/syft/syft_1.41.2_linux_amd64.tar.gz'' ''/storage/syft'']\<rparr>)"
  by (simp_all add: extractArchive_def endsWith_def corruptArchiveHost_def brokenArchiveHost_def
      linuxHost_def call_def storageDir_def syft_def posixJoin_def binaryBaseName_def Let_def)

text \<open>
  Three runs after the same download. With a good archive the install succeeds and the archive
  is gone. With a corrupt archive the install fails with the extraction's error and the
  archive is gone all the same. Where the removal throws as well, the install still fails
  with the extraction's error alone and the archive stays.
\<close>

theorem doInstall_removes_archive_witness:
  "selected selectedSyft = Some \<lparr>label = ''v1.41.2'', tag = ''v1.41.2'', rid = 2\<rparr>
   \<and> fst (download linuxHost syft \<lparr>label = ''v1.41.2'', tag = ''v1.41.2'', rid = 2\<rparr> (start []))
     = Inr ''/storage/syft/syft_1.41.2_linux_amd64.tar.gz''
   \<and> (\<exists>inst' s'. doInstall linuxHost syft selectedSyft (start []) = (Inr (), inst', s')
        \<and> world s' = []
        \<and> last (trace s') = Rm ''/storage/syft/syft_1.41.2_linux_amd64.tar.gz'')
   \<and> (\<exists>inst' s'. doInstall corruptArchiveHost syft selectedSyft (start [])
          = (Inl (Thrown ''TAR_BAD_ARCHIVE''), inst', s')
        \<and> world s' = []
        \<and> last (trace s') = Rm ''/storage/syft/syft_1.41.2_linux_amd64.tar.gz'')
   \<and> (\<exists>inst' s'. doInstall brokenArchiveHost syft selectedSyft (start [])
          = (Inl (Thrown ''TAR_BAD_ARCHIVE''), inst', s')
        \<and> world s' = [(''/storage/syft/syft_1.41.2_linux_amd64.tar.gz'', ''archive'')]
        \<and> last (trace s') = Rm ''/storage/syft/syft_1.41.2_linux_amd64.tar.gz'')"
proof -
  let ?a = "''/storage/syft/syft_1.41.2_linux_amd64.tar.gz''"
  have a: "selected selectedSyft = Some \<lparr>label = ''v1.41.2'', tag = ''v1.41.2'', rid = 2\<rparr>"
    by (simp add: selectedSyft_def)
  have rm1: "snd (rm linuxHost ?a [(?a, ''archive'')]) = []"
    by (simp add: linuxHost_def)
  have rm2: "snd (rm corruptArchiveHost ?a [(?a, ''archive'')]) = []"
    by (simp add: corruptArchiveHost_def linuxHost_def)
  have rm3: "snd (rm brokenArchiveHost ?a [(?a, ''archive'')]) = [(?a, ''archive'')]"
    by (simp add: brokenArchiveHost_def linuxHost_def)
  have r1: "\<exists>inst' s'. doInstall linuxHost syft selectedSyft (start []) = (Inr (), inst', s')
        \<and> world s' = [] \<and> last (trace s') = Rm ?a"
    using doInstall_removes_archive [OF a download_archive(1)]
    by (simp add: extract_archive note_event_def rm1) blast
  have r2: "\<exists>inst' s'. doInstall corruptArchiveHost syft selectedSyft (start [])
          = (Inl (Thrown ''TAR_BAD_ARCHIVE''), inst', s')
        \<and> world s' = [] \<and> last (trace s') = Rm ?a"
    using doInstall_removes_archive [OF a download_archive(2)]
    by (simp add: extract_archive note_event_def rm2) blast
  have r3: "\<exists>inst' s'. doInstall brokenArchiveHost syft selectedSyft (start [])
          = (Inl (Thrown ''TAR_BAD_ARCHIVE''), inst', s')
        \<and> world s' = [(?a, ''archive'')] \<and> last (trace s') = Rm ?a"
    using doInstall_removes_archive [OF a download_archive(3)]
    by (simp add: extract_archive note_event_def rm3) blast
  show ?thesis using a r1 r2 r3 by (simp add: download_archive)
qed

subsection \<open>The scan invokers\<close>

lemma installedSyft_binary: "cliBinary installedSyft = Some ''/storage/syft/syft''"
  by (simp add: cliBinary_def installedSyft_def truthy_def)

lemma installedGrype_binary: "cliBinary installedGrype = Some ''/storage/grype/grype''"
  by (simp add: cliBinary_def installedGrype_def truthy_def)

text \<open>
  C10. For a connection whose type is not \<open>podman\<close>, \<^verbatim>\<open>SyftService.analyse\<close> fails and
  leaves the world and the trace as they were: nothing was looked up, created or run. With the
  tool installed the error is \<open>extension only supported podman connection\<close>; the result
  does not depend on the host, so not on whether the destination exists.
\<close>

theorem syft_analyse_podman_gate:
  assumes "conn_type connection \<noteq> ''podman''"
  shows "(\<exists>e. syft_analyse h inst connection imageId s = (Inl e, s))
       \<and> (cliBinary inst \<noteq> None \<longrightarrow>
            syft_analyse h inst connection imageId s
            = (Inl (Error ''extension only supported podman connection''), s))"
  using assms by (auto simp: syft_analyse_def split: option.splits)

theorem syft_analyse_podman_gate_witness:
  "conn_type dockerEngine \<noteq> ''podman''
   \<and> cliBinary installedSyft \<noteq> None
   \<and> existsSync linuxHost (sbomDestination linuxHost dockerEngine ''sha256:abcd'')
        (world (start [(''/storage/docker/docker-context/abcd.jsonpow'', ''{}'')]))
   \<and> syft_analyse linuxHost installedSyft dockerEngine ''sha256:abcd''
        (start [(''/storage/docker/docker-context/abcd.jsonpow'', ''{}'')])
     = (Inl (Error ''extension only supported podman connection''),
        start [(''/storage/docker/docker-context/abcd.jsonpow'', ''{}'')])"
proof -
  have a: "conn_type dockerEngine \<noteq> ''podman''" by (simp add: dockerEngine_def)
  have b: "cliBinary installedSyft \<noteq> None" by (simp add: installedSyft_binary)
  have c: "existsSync linuxHost (sbomDestination linuxHost dockerEngine ''sha256:abcd'')
        (world (start [(''/storage/docker/docker-context/abcd.jsonpow'', ''{}'')]))"
    by (simp add: linuxHost_def sbomDestination_def dockerEngine_def sanitizeImageId_def
        startsWith_def substring_def posixJoin_def start_def)
  from syft_analyse_podman_gate [OF a, of linuxHost installedSyft "''sha256:abcd''"
      "start [(''/storage/docker/docker-context/abcd.jsonpow'', ''{}'')]"] a b c
  show ?thesis by blast
qed

lemma sbomDestination_example:
  "sbomDestination linuxHost podmanEngine ''sha256:abcd1234''
   = ''/storage/podman/podman-machine-default/abcd1234.jsonpow''"
  by (simp add: sbomDestination_def linuxHost_def podmanEngine_def sanitizeImageId_def
      startsWith_def substring_def posixJoin_def)

lemma grypeDestination_example:
  "grypeDestination linuxHost ''/storage/podman/podman-machine-default/abcd1234.jsonpow''
   = ''/storage/podman/podman-machine-default/abcd1234.json''"
  by (simp add: grypeDestination_def linuxHost_def posixJoin_def posixDirname_def
      posixBasename_def splitFirst_def Let_def)

text \<open>
  C3. When the destination an invoker computes exists, the invoker leaves the world and the
  trace as they were: the process executor receives no call and no file is touched. Past its
  guards (the tool installed, the connection a podman one, the SBOM present), the SBOM
  invoker returns the destination's path, and the vulnerability invoker returns what the
  schema makes of the content it reads there.
\<close>

theorem cache_hit_skips_binary:
  "(existsSync h (sbomDestination h connection imageId) (world s) \<longrightarrow>
      snd (syft_analyse h inst connection imageId s) = s
      \<and> (cliBinary inst \<noteq> None \<and> conn_type connection = ''podman'' \<longrightarrow>
           fst (syft_analyse h inst connection imageId s)
           = Inr (sbomDestination h connection imageId)))
   \<and> (existsSync h (grypeDestination h sbom) (world s) \<longrightarrow>
      snd (grype_analyse h ginst sbom s) = s
      \<and> (cliBinary ginst \<noteq> None \<and> existsSync h sbom (world s)
           \<and> readFile h (grypeDestination h sbom) (world s) = Inr content
           \<and> jsonParse h content = Inr j \<longrightarrow>
           fst (grype_analyse h ginst sbom s) = GrypeOutputSchema_parse j))"
  by (auto simp: syft_analyse_def grype_analyse_def readResult_def Let_def split: option.splits)

theorem cache_hit_skips_binary_witness:
  "syft_analyse linuxHost installedSyft podmanEngine ''sha256:abcd1234''
      (start [(''/storage/podman/podman-machine-default/abcd1234.jsonpow'', ''{}''),
              (''/storage/podman/podman-machine-default/abcd1234.json'', emptyResult)])
   = (Inr ''/storage/podman/podman-machine-default/abcd1234.jsonpow'',
      start [(''/storage/podman/podman-machine-default/abcd1234.jsonpow'', ''{}''),
             (''/storage/podman/podman-machine-default/abcd1234.json'', emptyResult)])
   \<and> grype_analyse linuxHost installedGrype
      ''/storage/podman/podman-machine-default/abcd1234.jsonpow''
      (start [(''/storage/podman/podman-machine-default/abcd1234.jsonpow'', ''{}''),
              (''/storage/podman/podman-machine-default/abcd1234.json'', emptyResult)])
   = (Inr \<lparr>matches = []\<rparr>,
      start [(''/storage/podman/podman-machine-default/abcd1234.jsonpow'', ''{}''),
             (''/storage/podman/podman-machine-default/abcd1234.json'', emptyResult)])"
proof -
  let ?sbom = "''/storage/podman/podman-machine-default/abcd1234.jsonpow''"
  let ?res = "''/storage/podman/podman-machine-default/abcd1234.json''"
  let ?s = "start [(?sbom, ''{}''), (?res, emptyResult)]"
  have e1: "existsSync linuxHost (sbomDestination linuxHost podmanEngine ''sha256:abcd1234'') (world ?s)"
    unfolding sbomDestination_example by (simp add: linuxHost_def start_def)
  have e2: "existsSync linuxHost (grypeDestination linuxHost ?sbom) (world ?s)"
    unfolding grypeDestination_example by (simp add: linuxHost_def start_def)
  have e3: "existsSync linuxHost ?sbom (world ?s)"
    by (simp add: linuxHost_def start_def)
  have r: "readFile linuxHost (grypeDestination linuxHost ?sbom) (world ?s) = Inr emptyResult"
    unfolding grypeDestination_example by (simp add: linuxHost_def start_def)
  have p: "jsonParse linuxHost emptyResult = Inr (JObject [(''matches'', JArray [])])"
    by (simp add: linuxHost_def)
  have g: "GrypeOutputSchema_parse (JObject [(''matches'', JArray [])]) = Inr \<lparr>matches = []\<rparr>"
    by (simp add: GrypeOutputSchema_parse_def)
  have c: "conn_type podmanEngine = ''podman''" by (simp add: podmanEngine_def)
  have i1: "cliBinary installedSyft \<noteq> None" by (simp add: installedSyft_binary)
  have i2: "cliBinary installedGrype \<noteq> None" by (simp add: installedGrype_binary)
  from cache_hit_skips_binary [of linuxHost podmanEngine "''sha256:abcd1234''" ?s installedSyft
      ?sbom installedGrype emptyResult "JObject [(''matches'', JArray [])]"]
    e1 e2 e3 r p c i1 i2
  have "snd (syft_analyse linuxHost installedSyft podmanEngine ''sha256:abcd1234'' ?s) = ?s"
    and "fst (syft_analyse linuxHost installedSyft podmanEngine ''sha256:abcd1234'' ?s)
         = Inr (sbomDestination linuxHost podmanEngine ''sha256:abcd1234'')"
    and "snd (grype_analyse linuxHost installedGrype ?sbom ?s) = ?s"
    and "fst (grype_analyse linuxHost installedGrype ?sbom ?s)
         = GrypeOutputSchema_parse (JObject [(''matches'', JArray [])])"
    by blast+
  then show ?thesis
    unfolding sbomDestination_example g by (simp add: prod_eq_iff)
qed

lemma sanitizeImageId_strips: "sanitizeImageId (''sha256:'' @ x) = x"
  by (simp add: sanitizeImageId_def startsWith_def substring_def)

lemma syft_analyse_returns_destination:
  "fst (syft_analyse h inst connection imageId s) = Inr p
   \<Longrightarrow> p = sbomDestination h connection imageId"
  by (auto simp: syft_analyse_def call_def Let_def
      split: option.splits if_splits prod.splits sum.splits)

lemma syft_analyse_miss_example:
  "syft_analyse linuxHost installedSyft podmanEngine ''sha256:abcd1234'' (start [])
   = (Inr ''/storage/podman/podman-machine-default/abcd1234.jsonpow'',
      \<lparr>world = [(''/storage/podman/podman-machine-default/abcd1234.jsonpow'', emptyResult)],
       trace = [WithProgress ''Scanning abcd1234'', FindPodmanConnection podmanEngine,
                Mkdir ''/storage/podman/podman-machine-default'',
                Exec ''/storage/syft/syft''
                  [''--from=podman'', ''sha256:abcd1234'',
                   ''--output=json=/storage/podman/podman-machine-default/abcd1234.jsonpow.tmp'']
                  (Some []),
                Rename ''/storage/podman/podman-machine-default/abcd1234.jsonpow.tmp''
                  ''/storage/podman/podman-machine-default/abcd1234.jsonpow'']\<rparr>)"
  unfolding syft_analyse_def installedSyft_binary sbomDestination_example
  by (simp add: linuxHost_def podmanEngine_def start_def call_def note_event_def
      connectionEnv_def sanitizeImageId_def startsWith_def substring_def posixDirname_def
      outputFile_def storeFile_def Let_def)

text \<open>
  C2, as the code has it. \<^verbatim>\<open>sanitizeImageId\<close> strips one leading \<open>sha256:\<close> and leaves
  an id without that prefix as it is; the destination of the SBOM is the join of the storage
  path, the provider id, the connection's name and the sanitized id with the extension
  \<open>.jsonpow\<close>, and it is the path a successful \<^verbatim>\<open>analyse\<close> returns.
\<close>

theorem sbom_destination:
  "sanitizeImageId (''sha256:'' @ x) = x
   \<and> (\<not> startsWith imageId ''sha256:'' \<longrightarrow> sanitizeImageId imageId = imageId)
   \<and> sbomDestination h connection imageId
     = pathJoin h [storagePath h, providerId connection, conn_name connection,
                   sanitizeImageId imageId @ ''.jsonpow'']
   \<and> (fst (syft_analyse h inst connection imageId s) = Inr p \<longrightarrow>
        p = sbomDestination h connection imageId)"
proof (intro conjI impI)
  show "sanitizeImageId (''sha256:'' @ x) = x" by (rule sanitizeImageId_strips)
  show "sanitizeImageId imageId = imageId" if "\<not> startsWith imageId ''sha256:''"
    using that by (simp add: sanitizeImageId_def)
  show "sbomDestination h connection imageId
     = pathJoin h [storagePath h, providerId connection, conn_name connection,
                   sanitizeImageId imageId @ ''.jsonpow'']"
    by (simp add: sbomDestination_def)
  show "p = sbomDestination h connection imageId"
    if "fst (syft_analyse h inst connection imageId s) = Inr p"
    using that by (rule syft_analyse_returns_destination)
qed

theorem sbom_destination_witness:
  "sanitizeImageId ''sha256:abcd1234'' = ''abcd1234''
   \<and> \<not> startsWith ''abcd1234'' ''sha256:''
   \<and> sanitizeImageId ''abcd1234'' = ''abcd1234''
   \<and> fst (syft_analyse linuxHost installedSyft podmanEngine ''sha256:abcd1234'' (start []))
     = Inr (sbomDestination linuxHost podmanEngine ''sha256:abcd1234'')"
  using sbom_destination [of "''abcd1234''" "''abcd1234''" linuxHost podmanEngine installedSyft
      "start []" "''/storage/podman/podman-machine-default/abcd1234.jsonpow''"]
    sbom_destination [of "''abcd1234''" "''sha256:abcd1234''" linuxHost podmanEngine installedSyft
      "start []" "''/storage/podman/podman-machine-default/abcd1234.jsonpow''"]
    syft_analyse_miss_example
  by (simp add: startsWith_def)

text \<open>
  The claim's extension \<open>.json\<close> is not the code's: for the image \<open>sha256:abcd1234\<close> the
  invoker returns a path that ends in \<open>abcd1234.jsonpow\<close>.
\<close>

theorem sbom_destination_json_counterexample:
  "sbomDestination linuxHost podmanEngine ''sha256:abcd1234''
   \<noteq> pathJoin linuxHost [storagePath linuxHost, providerId podmanEngine, conn_name podmanEngine,
                          ''abcd1234'' @ ''.json'']
   \<and> fst (syft_analyse linuxHost installedSyft podmanEngine ''sha256:abcd1234'' (start []))
     = Inr ''/storage/podman/podman-machine-default/abcd1234.jsonpow''"
  unfolding sbomDestination_example syft_analyse_miss_example
  by (simp add: linuxHost_def podmanEngine_def posixJoin_def)

text \<open>
  The two extensions have to differ. The vulnerability invoker replaces the extension of the
  SBOM's name by \<open>.json\<close>; for an SBOM stored as \<open>abcd1234.json\<close> its destination would be
  the SBOM itself, which exists, and it would read the SBOM as its own cached result.
\<close>

lemma grypeDestination_of_json:
  "grypeDestination linuxHost ''/storage/podman/podman-machine-default/abcd1234.json''
   = ''/storage/podman/podman-machine-default/abcd1234.json''"
  by (simp add: grypeDestination_def linuxHost_def posixJoin_def posixDirname_def
      posixBasename_def splitFirst_def Let_def)

text \<open>
  C1, on the vulnerability invoker. On a cache miss \<^verbatim>\<open>GrypeService.analyse\<close> makes one
  call: it runs the binary with \<open>--file=\<close> set to the destination itself. No temporary
  path is named and nothing is renamed.
\<close>

theorem grype_analyse_writes_destination:
  "grype_analyse linuxHost installedGrype
      ''/storage/podman/podman-machine-default/abcd1234.jsonpow''
      (start [(''/storage/podman/podman-machine-default/abcd1234.jsonpow'', ''{}'')])
   = (Inr \<lparr>matches = []\<rparr>,
      \<lparr>world = [(''/storage/podman/podman-machine-default/abcd1234.json'', emptyResult),
                (''/storage/podman/podman-machine-default/abcd1234.jsonpow'', ''{}'')],
       trace = [Exec ''/storage/grype/grype''
                  [''sbom:/storage/podman/podman-machine-default/abcd1234.jsonpow'',
                   ''--output=json'',
                   ''--file=/storage/podman/podman-machine-default/abcd1234.json'']
                  None]\<rparr>)"
  unfolding grype_analyse_def installedGrype_binary grypeDestination_example
  by (simp add: linuxHost_def start_def call_def readResult_def outputFile_def storeFile_def
      startsWith_def GrypeOutputSchema_parse_def Let_def)

text \<open>
  The SBOM invoker does go through a temporary file: a successful run on a cache miss makes
  exactly these calls, the binary writing to \<open><destination>.tmp\<close> and a rename to the
  destination closing the run.
\<close>

theorem syft_analyse_tmp_then_rename:
  assumes "syft_analyse h inst connection imageId s = (Inr p, s')"
    and "\<not> existsSync h (sbomDestination h connection imageId) (world s)"
  shows "\<exists>binary env. cliBinary inst = Some binary
           \<and> p = sbomDestination h connection imageId
           \<and> trace s' = trace s @
               [WithProgress (''Scanning '' @ sanitizeImageId imageId),
                FindPodmanConnection connection,
                Mkdir (pathDirname h p),
                Exec binary [''--from=podman'', imageId, ''--output=json='' @ p @ ''.tmp'']
                  (Some env),
                Rename (p @ ''.tmp'') p]"
  using assms
  by (auto simp: syft_analyse_def call_def note_event_def Let_def
      split: option.splits if_splits prod.splits sum.splits)

theorem syft_analyse_tmp_then_rename_witness:
  "\<not> existsSync linuxHost (sbomDestination linuxHost podmanEngine ''sha256:abcd1234'')
       (world (start []))
   \<and> (\<exists>binary env. cliBinary installedSyft = Some binary
        \<and> trace (snd (syft_analyse linuxHost installedSyft podmanEngine ''sha256:abcd1234''
                          (start [])))
          = trace (start []) @
              [WithProgress (''Scanning '' @ sanitizeImageId ''sha256:abcd1234''),
               FindPodmanConnection podmanEngine,
               Mkdir (pathDirname linuxHost
                        ''/storage/podman/podman-machine-default/abcd1234.jsonpow''),
               Exec binary
                 [''--from=podman'', ''sha256:abcd1234'',
                  ''--output=json='' @ ''/storage/podman/podman-machine-default/abcd1234.jsonpow''
                    @ ''.tmp'']
                 (Some env),
               Rename (''/storage/podman/podman-machine-default/abcd1234.jsonpow'' @ ''.tmp'')
                 ''/storage/podman/podman-machine-default/abcd1234.jsonpow''])"
proof -
  have n: "\<not> existsSync linuxHost (sbomDestination linuxHost podmanEngine ''sha256:abcd1234'')
       (world (start []))"
    by (simp add: linuxHost_def start_def)
  from syft_analyse_tmp_then_rename [OF syft_analyse_miss_example n] n
  show ?thesis unfolding syft_analyse_miss_example by simp
qed

text \<open>
  The vulnerability invoker does not: on every cache miss its only call is the binary, with
  the destination as the file to write.
\<close>

theorem grype_analyse_direct:
  assumes "cliBinary inst = Some binary" and "existsSync h sbom (world s)"
    and "\<not> existsSync h (grypeDestination h sbom) (world s)"
  shows "trace (snd (grype_analyse h inst sbom s))
         = trace s @ [Exec binary [''sbom:'' @ sbom, ''--output=json'',
                                   ''--file='' @ grypeDestination h sbom] None]"
  using assms
  by (auto simp: grype_analyse_def call_def Let_def split: prod.splits sum.splits)

theorem grype_analyse_direct_witness:
  "cliBinary installedGrype = Some ''/storage/grype/grype''
   \<and> existsSync linuxHost ''/storage/podman/podman-machine-default/abcd1234.jsonpow''
       (world (start [(''/storage/podman/podman-machine-default/abcd1234.jsonpow'', ''{}'')]))
   \<and> \<not> existsSync linuxHost
         (grypeDestination linuxHost ''/storage/podman/podman-machine-default/abcd1234.jsonpow'')
         (world (start [(''/storage/podman/podman-machine-default/abcd1234.jsonpow'', ''{}'')]))
   \<and> trace (snd (grype_analyse linuxHost installedGrype
                    ''/storage/podman/podman-machine-default/abcd1234.jsonpow''
                    (start [(''/storage/podman/podman-machine-default/abcd1234.jsonpow'', ''{}'')])))
     = [Exec ''/storage/grype/grype''
          [''sbom:/storage/podman/podman-machine-default/abcd1234.jsonpow'', ''--output=json'',
           ''--file=/storage/podman/podman-machine-default/abcd1234.json'']
          None]"
proof -
  let ?sbom = "''/storage/podman/podman-machine-default/abcd1234.jsonpow''"
  have e: "existsSync linuxHost ?sbom (world (start [(?sbom, ''{}'')]))"
    by (simp add: linuxHost_def start_def)
  have n: "\<not> existsSync linuxHost (grypeDestination linuxHost ?sbom)
             (world (start [(?sbom, ''{}'')]))"
    unfolding grypeDestination_example by (simp add: linuxHost_def start_def)
  from grype_analyse_direct [OF installedGrype_binary e n] e n installedGrype_binary
  show ?thesis unfolding grypeDestination_example by (simp add: start_def)
qed

subsection \<open>The result schema\<close>


lemma parseVulnerability_error: "parseVulnerability j = Inl e \<Longrightarrow> e = ZodError"
  by (auto simp: parseVulnerability_def split: json.splits option.splits if_splits)



lemma parseMatch_error: "parseMatch j = Inl e \<Longrightarrow> e = ZodError"
  by (auto simp: parseMatch_def dest: parseVulnerability_error
      split: json.splits option.splits sum.splits)



lemma parseMatches_error: "parseMatches js = Inl e \<Longrightarrow> e = ZodError"
  by (induction js arbitrary: e) (auto dest: parseMatch_error split: sum.splits)








subsection \<open>The version probe\<close>

lemma dropWhile_head: "xs \<noteq> [] \<Longrightarrow> \<not> P (hd xs) \<Longrightarrow> dropWhile P xs = xs"
  by (cases xs) simp_all

lemma trim_padded:
  assumes "list_all isWhiteSpace pre" and "list_all isWhiteSpace post"
    and "body \<noteq> []" and "\<not> isWhiteSpace (hd body)" and "\<not> isWhiteSpace (last body)"
  shows "trim (pre @ body @ post) = body"
proof -
  have "dropWhile isWhiteSpace (pre @ body @ post) = dropWhile isWhiteSpace (body @ post)"
    using assms(1) by (simp add: dropWhile_append2 list_all_iff)
  also have "\<dots> = body @ post"
    using assms(3,4) by (intro dropWhile_head) simp_all
  finally have a: "dropWhile isWhiteSpace (pre @ body @ post) = body @ post" .
  have "dropWhile isWhiteSpace (rev post @ rev body) = dropWhile isWhiteSpace (rev body)"
    using assms(2) by (intro dropWhile_append2) (simp add: list_all_iff)
  also have "\<dots> = rev body"
    using assms(3,5) by (intro dropWhile_head) (simp_all add: hd_rev)
  finally show ?thesis by (simp add: trim_def a)
qed

lemma split_word:
  "list_all (\<lambda>c. \<not> isWhiteSpace c) w \<Longrightarrow> splitWhiteSpace w = [w]"
  by (induction w) simp_all

lemma split_word_then:
  "list_all (\<lambda>c. \<not> isWhiteSpace c) w \<Longrightarrow> isWhiteSpace c
   \<Longrightarrow> splitWhiteSpace (w @ c # cs) = w # splitWhiteSpace (dropWhile isWhiteSpace cs)"
  by (induction w) simp_all

lemma split_two_words:
  assumes "list_all (\<lambda>c. \<not> isWhiteSpace c) name" and "list_all (\<lambda>c. \<not> isWhiteSpace c) ver"
    and "ver \<noteq> []" and "list_all isWhiteSpace sep" and "sep \<noteq> []"
  shows "splitWhiteSpace (name @ sep @ ver) = [name, ver]"
proof -
  obtain c sep' where sep: "sep = c # sep'" using assms(5) by (cases sep) auto
  have c: "isWhiteSpace c" and sep': "list_all isWhiteSpace sep'" using assms(4) sep by simp_all
  have "dropWhile isWhiteSpace (sep' @ ver) = dropWhile isWhiteSpace ver"
    using sep' by (simp add: dropWhile_append2 list_all_iff)
  also have "\<dots> = ver"
    using assms(2,3) by (intro dropWhile_head) (cases ver; simp)+
  finally have d: "dropWhile isWhiteSpace (sep' @ ver) = ver" .
  have "splitWhiteSpace (name @ c # (sep' @ ver))
        = name # splitWhiteSpace (dropWhile isWhiteSpace (sep' @ ver))"
    using assms(1) c by (rule split_word_then)
  then show ?thesis using d split_word [OF assms(2)] by (simp add: sep)
qed

lemma init_probe_ok:
  assumes "existsSync h (binaryPath h t) (world s)"
    and "processExec h (binaryPath h t) [''--version''] None (world s) = (Inr out, w)"
    and "mkdir h (storageDir h t) w = (Inr (), w')"
    and "v = (case splitWhiteSpace (trim out) of _ # x # _ \<Rightarrow> x | _ \<Rightarrow> trim out)"
  shows "\<exists>inst' s'. init h t inst s = (Inr (), inst', s')
           \<and> map_option tool_version (cliTool inst') = Some (Some v)
           \<and> map_option tool_path (cliTool inst')
             = Some (if v \<noteq> [] then Some (binaryPath h t) else None)"
  using assms
  by (simp add: init_def getInstalledVersion_def call_def truthy_def Let_def)

lemma init_probe_fails:
  assumes "existsSync h (binaryPath h t) (world s)"
    and "processExec h (binaryPath h t) [''--version''] None (world s) = (Inl e, w)"
    and "mkdir h (storageDir h t) w = (Inr (), w')"
  shows "\<exists>inst' s'. init h t inst s = (Inr (), inst', s')
           \<and> map_option tool_version (cliTool inst') = Some None
           \<and> map_option tool_path (cliTool inst') = Some None
           \<and> ConsoleWarn ''Unable to determine installed version'' \<in> set (trace s')"
  using assms
  by (simp add: init_def getInstalledVersion_def call_def note_event_def truthy_def Let_def)


lemma word_ends:
  "list_all (\<lambda>c. \<not> isWhiteSpace c) w \<Longrightarrow> w \<noteq> []
   \<Longrightarrow> \<not> isWhiteSpace (hd w) \<and> \<not> isWhiteSpace (last w)"
  by (simp add: list_all_iff)

text \<open>
  C7, as the code has it. With a binary at the conventional path, \<^verbatim>\<open>init\<close> runs it with
  \<open>--version\<close>. If the run throws, \<^verbatim>\<open>init\<close> warns, completes once the storage folder is
  made, and registers the tool with no version and no path. If the output is two words,
  \<open><name> <semver>\<close> with white space around and between, the version is the second
  word and the path is the binary's. If the output is a single word there is no second token,
  and the version is that word: the tool is registered as installed.
\<close>

theorem init_probe:
  assumes "existsSync h (binaryPath h t) (world s)"
  shows
    "(processExec h (binaryPath h t) [''--version''] None (world s) = (Inl e, w)
        \<and> mkdir h (storageDir h t) w = (Inr (), w') \<longrightarrow>
        (\<exists>inst' s'. init h t inst s = (Inr (), inst', s')
           \<and> map_option tool_version (cliTool inst') = Some None
           \<and> map_option tool_path (cliTool inst') = Some None
           \<and> ConsoleWarn ''Unable to determine installed version'' \<in> set (trace s')))
     \<and> (processExec h (binaryPath h t) [''--version''] None (world s)
          = (Inr (pre @ name @ sep @ ver @ post), w)
        \<and> list_all isWhiteSpace pre \<and> list_all isWhiteSpace post
        \<and> list_all isWhiteSpace sep \<and> sep \<noteq> []
        \<and> list_all (\<lambda>c. \<not> isWhiteSpace c) name \<and> name \<noteq> []
        \<and> list_all (\<lambda>c. \<not> isWhiteSpace c) ver \<and> ver \<noteq> []
        \<and> mkdir h (storageDir h t) w = (Inr (), w') \<longrightarrow>
        (\<exists>inst' s'. init h t inst s = (Inr (), inst', s')
           \<and> map_option tool_version (cliTool inst') = Some (Some ver)
           \<and> map_option tool_path (cliTool inst') = Some (Some (binaryPath h t))))
     \<and> (processExec h (binaryPath h t) [''--version''] None (world s)
          = (Inr (pre @ name @ post), w)
        \<and> list_all isWhiteSpace pre \<and> list_all isWhiteSpace post
        \<and> list_all (\<lambda>c. \<not> isWhiteSpace c) name \<and> name \<noteq> []
        \<and> mkdir h (storageDir h t) w = (Inr (), w') \<longrightarrow>
        (\<exists>inst' s'. init h t inst s = (Inr (), inst', s')
           \<and> map_option tool_version (cliTool inst') = Some (Some name)
           \<and> map_option tool_path (cliTool inst') = Some (Some (binaryPath h t))))"
proof (intro conjI impI)
  assume "processExec h (binaryPath h t) [''--version''] None (world s) = (Inl e, w)
        \<and> mkdir h (storageDir h t) w = (Inr (), w')"
  then show "\<exists>inst' s'. init h t inst s = (Inr (), inst', s')
           \<and> map_option tool_version (cliTool inst') = Some None
           \<and> map_option tool_path (cliTool inst') = Some None
           \<and> ConsoleWarn ''Unable to determine installed version'' \<in> set (trace s')"
    using init_probe_fails [OF assms] by blast
next
  assume a: "processExec h (binaryPath h t) [''--version''] None (world s)
          = (Inr (pre @ name @ sep @ ver @ post), w)
        \<and> list_all isWhiteSpace pre \<and> list_all isWhiteSpace post
        \<and> list_all isWhiteSpace sep \<and> sep \<noteq> []
        \<and> list_all (\<lambda>c. \<not> isWhiteSpace c) name \<and> name \<noteq> []
        \<and> list_all (\<lambda>c. \<not> isWhiteSpace c) ver \<and> ver \<noteq> []
        \<and> mkdir h (storageDir h t) w = (Inr (), w')"
  have "trim (pre @ (name @ sep @ ver) @ post) = name @ sep @ ver"
    using a word_ends [of name] word_ends [of ver]
    by (intro trim_padded) simp_all
  then have t: "trim (pre @ name @ sep @ ver @ post) = name @ sep @ ver" by simp
  have sp: "splitWhiteSpace (name @ sep @ ver) = [name, ver]"
    using a by (intro split_two_words) simp_all
  have "ver = (case splitWhiteSpace (trim (pre @ name @ sep @ ver @ post)) of
                 _ # x # _ \<Rightarrow> x | _ \<Rightarrow> trim (pre @ name @ sep @ ver @ post))"
    by (simp add: t sp)
  from init_probe_ok [OF assms _ _ this, of w w' inst] a
  show "\<exists>inst' s'. init h t inst s = (Inr (), inst', s')
           \<and> map_option tool_version (cliTool inst') = Some (Some ver)
           \<and> map_option tool_path (cliTool inst') = Some (Some (binaryPath h t))"
    by simp
next
  assume a: "processExec h (binaryPath h t) [''--version''] None (world s)
          = (Inr (pre @ name @ post), w)
        \<and> list_all isWhiteSpace pre \<and> list_all isWhiteSpace post
        \<and> list_all (\<lambda>c. \<not> isWhiteSpace c) name \<and> name \<noteq> []
        \<and> mkdir h (storageDir h t) w = (Inr (), w')"
  have t: "trim (pre @ name @ post) = name"
    using a word_ends [of name] by (intro trim_padded) simp_all
  have sp: "splitWhiteSpace name = [name]"
    using a by (intro split_word) simp
  have "name = (case splitWhiteSpace (trim (pre @ name @ post)) of
                 _ # x # _ \<Rightarrow> x | _ \<Rightarrow> trim (pre @ name @ post))"
    by (simp add: t sp)
  from init_probe_ok [OF assms _ _ this, of w w' inst] a
  show "\<exists>inst' s'. init h t inst s = (Inr (), inst', s')
           \<and> map_option tool_version (cliTool inst') = Some (Some name)
           \<and> map_option tool_path (cliTool inst') = Some (Some (binaryPath h t))"
    by simp
qed

lemma binaryPath_syft:
  "binaryPath linuxHost syft = ''/storage/syft/syft''"
  "binaryPath noExecHost syft = ''/storage/syft/syft''"
  "binaryPath oneWordHost syft = ''/storage/syft/syft''"
  by (simp_all add: binaryPath_def storageDir_def binaryBaseName_def linuxHost_def
      noExecHost_def oneWordHost_def syft_def posixJoin_def)

lemma storageDir_syft:
  "storageDir linuxHost syft = ''/storage/syft''"
  "storageDir noExecHost syft = ''/storage/syft''"
  "storageDir oneWordHost syft = ''/storage/syft''"
  by (simp_all add: storageDir_def linuxHost_def noExecHost_def oneWordHost_def syft_def
      posixJoin_def)

text \<open>
  A binary that prints the single word \<open>syft\<close> does not follow the format, yet \<^verbatim>\<open>init\<close>
  registers the tool with the version \<open>syft\<close> and with its path: it is not treated as
  not installed.
\<close>

theorem init_one_word_counterexample:
  "existsSync oneWordHost (binaryPath oneWordHost syft)
      (world (start [(''/storage/syft/syft'', ''ELF'')]))
   \<and> fst (processExec oneWordHost (binaryPath oneWordHost syft) [''--version''] None
            [(''/storage/syft/syft'', ''ELF'')]) = Inr ''syft''
   \<and> fst (init oneWordHost syft freshService (start [(''/storage/syft/syft'', ''ELF'')])) = Inr ()
   \<and> map_option tool_version
        (cliTool (fst (snd (init oneWordHost syft freshService
                              (start [(''/storage/syft/syft'', ''ELF'')])))))
     = Some (Some ''syft'')
   \<and> map_option tool_path
        (cliTool (fst (snd (init oneWordHost syft freshService
                              (start [(''/storage/syft/syft'', ''ELF'')])))))
     = Some (Some ''/storage/syft/syft'')"
  unfolding init_def getInstalledVersion_def binaryPath_syft storageDir_syft
  by (simp add: oneWordHost_def linuxHost_def start_def call_def trim_def isWhiteSpace_def
      truthy_def Let_def)

theorem init_probe_witness:
  "existsSync linuxHost (binaryPath linuxHost syft) (world (start [(''/storage/syft/syft'', ''ELF'')]))
   \<and> (\<exists>inst' s'. init linuxHost syft freshService (start [(''/storage/syft/syft'', ''ELF'')])
          = (Inr (), inst', s')
        \<and> map_option tool_version (cliTool inst') = Some (Some ''1.41.2'')
        \<and> map_option tool_path (cliTool inst') = Some (Some ''/storage/syft/syft''))
   \<and> (\<exists>inst' s'. init noExecHost syft freshService (start [(''/storage/syft/syft'', ''ELF'')])
          = (Inr (), inst', s')
        \<and> map_option tool_version (cliTool inst') = Some None
        \<and> map_option tool_path (cliTool inst') = Some None
        \<and> ConsoleWarn ''Unable to determine installed version'' \<in> set (trace s'))
   \<and> (\<exists>inst' s'. init oneWordHost syft freshService (start [(''/storage/syft/syft'', ''ELF'')])
          = (Inr (), inst', s')
        \<and> map_option tool_version (cliTool inst') = Some (Some ''syft''))"
proof -
  let ?s = "start [(''/storage/syft/syft'', ''ELF'')]"
  have e1: "existsSync linuxHost (binaryPath linuxHost syft) (world ?s)"
    unfolding binaryPath_syft by (simp add: linuxHost_def start_def)
  have e2: "existsSync noExecHost (binaryPath noExecHost syft) (world ?s)"
    unfolding binaryPath_syft by (simp add: noExecHost_def linuxHost_def start_def)
  have e3: "existsSync oneWordHost (binaryPath oneWordHost syft) (world ?s)"
    unfolding binaryPath_syft by (simp add: oneWordHost_def linuxHost_def start_def)
  have x1: "processExec linuxHost (binaryPath linuxHost syft) [''--version''] None (world ?s)
            = (Inr ([] @ ''syft'' @ '' '' @ ''1.41.2'' @ []), [(''/storage/syft/syft'', ''ELF'')])"
    by (simp add: linuxHost_def start_def)
  have x2: "processExec noExecHost (binaryPath noExecHost syft) [''--version''] None (world ?s)
            = (Inl (Thrown ''EACCES''), [(''/storage/syft/syft'', ''ELF'')])"
    by (simp add: noExecHost_def linuxHost_def start_def)
  have x3: "processExec oneWordHost (binaryPath oneWordHost syft) [''--version''] None (world ?s)
            = (Inr ([] @ ''syft'' @ []), [(''/storage/syft/syft'', ''ELF'')])"
    by (simp add: oneWordHost_def linuxHost_def start_def)
  have m1: "mkdir linuxHost (storageDir linuxHost syft) [(''/storage/syft/syft'', ''ELF'')]
            = (Inr (), [(''/storage/syft/syft'', ''ELF'')])"
    by (simp add: linuxHost_def)
  have m2: "mkdir noExecHost (storageDir noExecHost syft) [(''/storage/syft/syft'', ''ELF'')]
            = (Inr (), [(''/storage/syft/syft'', ''ELF'')])"
    by (simp add: noExecHost_def linuxHost_def)
  have m3: "mkdir oneWordHost (storageDir oneWordHost syft) [(''/storage/syft/syft'', ''ELF'')]
            = (Inr (), [(''/storage/syft/syft'', ''ELF'')])"
    by (simp add: oneWordHost_def linuxHost_def)
  have ws: "list_all isWhiteSpace '' ''" "list_all (\<lambda>c. \<not> isWhiteSpace c) ''syft''"
    "list_all (\<lambda>c. \<not> isWhiteSpace c) ''1.41.2''"
    by (simp_all add: isWhiteSpace_def)
  let ?w = "[(''/storage/syft/syft'', ''ELF'')]"
  have r1: "\<exists>inst' s'. init linuxHost syft freshService ?s = (Inr (), inst', s')
        \<and> map_option tool_version (cliTool inst') = Some (Some ''1.41.2'')
        \<and> map_option tool_path (cliTool inst') = Some (Some ''/storage/syft/syft'')"
    using init_probe [OF e1, where inst = freshService and pre = "[]" and name = "''syft''"
        and sep = "'' ''" and ver = "''1.41.2''" and post = "[]" and w = ?w and w' = ?w]
      x1 m1 ws
    unfolding binaryPath_syft by simp
  have r2: "\<exists>inst' s'. init noExecHost syft freshService ?s = (Inr (), inst', s')
        \<and> map_option tool_version (cliTool inst') = Some None
        \<and> map_option tool_path (cliTool inst') = Some None
        \<and> ConsoleWarn ''Unable to determine installed version'' \<in> set (trace s')"
    using init_probe [OF e2, where inst = freshService and e = "Thrown ''EACCES''"
        and w = ?w and w' = ?w] x2 m2
    by simp
  have r3: "\<exists>inst' s'. init oneWordHost syft freshService ?s = (Inr (), inst', s')
        \<and> map_option tool_version (cliTool inst') = Some (Some ''syft'')"
    using init_probe [OF e3, where inst = freshService and pre = "[]" and name = "''syft''"
        and sep = "[]" and ver = "[]" and post = "[]" and w = ?w and w' = ?w] x3 m3 ws
    by auto
  show ?thesis using e1 r1 r2 r3 by blast
qed

end
